theory Spec2Isabelle
  imports Main "HOL-Library.Word"
begin

section \<open>Go strings as byte lists\<close>

text \<open>
  A Go \<^verbatim>\<open>string\<close> is a sequence of bytes, and so is \<^typ>\<open>string\<close>.  The functions of
  package \<^verbatim>\<open>strings\<close> that \<^verbatim>\<open>gfwlist.go\<close> calls are modelled on bytes.  Every cutset
  and separator the program passes is ASCII, for which the byte-wise and the rune-wise
  reading of \<^verbatim>\<open>TrimLeft\<close>, \<^verbatim>\<open>Trim\<close> and \<^verbatim>\<open>Split\<close> agree.
\<close>

definition HasPrefix :: "string \<Rightarrow> string \<Rightarrow> bool" where
  "HasPrefix s p = (take (length p) s = p)"

definition HasSuffix :: "string \<Rightarrow> string \<Rightarrow> bool" where
  "HasSuffix s p = (length p \<le> length s \<and> drop (length s - length p) s = p)"

text \<open>\<^verbatim>\<open>TrimLeft(s, cutset)\<close> removes every leading byte that occurs in \<^verbatim>\<open>cutset\<close>.\<close>

definition TrimLeft :: "string \<Rightarrow> string \<Rightarrow> string" where
  "TrimLeft s cutset = dropWhile (\<lambda>c. c \<in> set cutset) s"

definition TrimRight :: "string \<Rightarrow> string \<Rightarrow> string" where
  "TrimRight s cutset = rev (dropWhile (\<lambda>c. c \<in> set cutset) (rev s))"

definition Trim :: "string \<Rightarrow> string \<Rightarrow> string" where
  "Trim s cutset = TrimRight (TrimLeft s cutset) cutset"

fun Contains :: "string \<Rightarrow> string \<Rightarrow> bool" where
  "Contains [] substr = (substr = [])"
| "Contains (c # cs) substr = (HasPrefix (c # cs) substr \<or> Contains cs substr)"

text \<open>
  \<^verbatim>\<open>Split(s, sep)\<close> for a non-empty separator: the pieces of \<^verbatim>\<open>s\<close> between the
  occurrences of \<^verbatim>\<open>sep\<close>, found from the left.  \<open>cur\<close> is the piece being read
  (reversed) and \<open>k\<close> counts the bytes of a matched separator that are still to be
  skipped.  The result always has at least one piece.  (The program only splits at
  \<^verbatim>\<open>"."\<close>; the empty separator, which explodes the string, is not modelled.)
\<close>

fun genSplit :: "string \<Rightarrow> string \<Rightarrow> nat \<Rightarrow> string \<Rightarrow> string list" where
  "genSplit sep cur k [] = [rev cur]"
| "genSplit sep cur (Suc k) (c # cs) = genSplit sep cur k cs"
| "genSplit sep cur 0 (c # cs) =
     (if HasPrefix (c # cs) sep then rev cur # genSplit sep [] (length sep - 1) cs
      else genSplit sep (c # cur) 0 cs)"

definition Split :: "string \<Rightarrow> string \<Rightarrow> string list" where
  "Split s sep = genSplit sep [] 0 s"

fun Join :: "string list \<Rightarrow> string \<Rightarrow> string" where
  "Join [] sep = []"
| "Join [a] sep = a"
| "Join (a # b # elems) sep = a @ sep @ Join (b # elems) sep"

section \<open>The library's URL and IP parsers\<close>

text \<open>
  \<^verbatim>\<open>tryGetDomain\<close> calls \<^verbatim>\<open>url.QueryUnescape\<close>, \<^verbatim>\<open>url.Parse\<close>, \<^verbatim>\<open>(*URL).Hostname\<close> and
  \<^verbatim>\<open>net.ParseIP\<close> of Go's standard library.  They are modelled here after the library's
  sources (Go 1.18), restricted to what decides whether parsing succeeds and what the
  host is: a \<^verbatim>\<open>URL\<close> keeps its scheme and its host only, and an error keeps no message
  (the program logs it and goes on).
\<close>

text \<open>A byte as a number, for the comparisons the library makes on bytes.\<close>

definition byte :: "char \<Rightarrow> int" where
  "byte c = of_char c"

definition isdigit :: "char \<Rightarrow> bool" where
  "isdigit c = (byte CHR ''0'' \<le> byte c \<and> byte c \<le> byte CHR ''9'')"

definition isalpha :: "char \<Rightarrow> bool" where
  "isalpha c =
     (byte CHR ''a'' \<le> byte c \<and> byte c \<le> byte CHR ''z''
      \<or> byte CHR ''A'' \<le> byte c \<and> byte c \<le> byte CHR ''Z'')"

definition ishex :: "char \<Rightarrow> bool" where
  "ishex c =
     (isdigit c
      \<or> byte CHR ''a'' \<le> byte c \<and> byte c \<le> byte CHR ''f''
      \<or> byte CHR ''A'' \<le> byte c \<and> byte c \<le> byte CHR ''F'')"

definition unhex :: "char \<Rightarrow> int" where
  "unhex c =
     (if isdigit c then byte c - byte CHR ''0''
      else if byte CHR ''a'' \<le> byte c \<and> byte c \<le> byte CHR ''f'' then byte c - byte CHR ''a'' + 10
      else if byte CHR ''A'' \<le> byte c \<and> byte c \<le> byte CHR ''F'' then byte c - byte CHR ''A'' + 10
      else 0)"

datatype encoding =
  encodePath | encodePathSegment | encodeHost | encodeZone
  | encodeUserPassword | encodeQueryComponent | encodeFragment

text \<open>
  \<^verbatim>\<open>shouldEscape(c, encodeHost)\<close>, the only mode \<^verbatim>\<open>unescape\<close> asks about: letters,
  digits, the sub-delimiters and brackets that a host may hold, and the unreserved marks
  need no escaping; every other byte does.
\<close>

definition shouldEscape_host :: "char \<Rightarrow> bool" where
  "shouldEscape_host c =
     (\<not> (isalpha c \<or> isdigit c \<or> c \<in> set ''!$&'()*+,;=:[]<>\"'' \<or> c \<in> set ''-_.~''))"

text \<open>
  \<^verbatim>\<open>unescape(s, mode)\<close> runs twice over \<^verbatim>\<open>s\<close>: the first pass rejects a \<^verbatim>\<open>%\<close> that is
  not followed by two hex digits and, in a host, an escaped ASCII byte or a byte that
  would need escaping; the second pass decodes.
\<close>

fun unescape_ok :: "encoding \<Rightarrow> string \<Rightarrow> bool" where
  "unescape_ok mode [] = True"
| "unescape_ok mode (c # cs) =
     (if c = CHR ''%'' then
        (case cs of
           h1 # h2 # rest \<Rightarrow>
             ishex h1 \<and> ishex h2
             \<and> \<not> (mode = encodeHost \<and> unhex h1 < 8 \<and> [h1, h2] \<noteq> ''25'')
             \<and> \<not> (mode = encodeZone \<and> [h1, h2] \<noteq> ''25''
                    \<and> unhex h1 * 16 + unhex h2 \<noteq> 32
                    \<and> shouldEscape_host (char_of (unhex h1 * 16 + unhex h2)))
             \<and> unescape_ok mode rest
         | _ \<Rightarrow> False)
      else if (mode = encodeHost \<or> mode = encodeZone) \<and> byte c < 0x80
              \<and> shouldEscape_host c then False
      else unescape_ok mode cs)"

fun unescape_decode :: "encoding \<Rightarrow> string \<Rightarrow> string" where
  "unescape_decode mode [] = []"
| "unescape_decode mode (c # cs) =
     (if c = CHR ''%'' then
        (case cs of
           h1 # h2 # rest \<Rightarrow> char_of (unhex h1 * 16 + unhex h2) # unescape_decode mode rest
         | _ \<Rightarrow> [])
      else if c = CHR ''+'' \<and> mode = encodeQueryComponent then CHR '' '' # unescape_decode mode cs
      else c # unescape_decode mode cs)"

definition unescape :: "string \<Rightarrow> encoding \<Rightarrow> string option" where
  "unescape s mode = (if unescape_ok mode s then Some (unescape_decode mode s) else None)"

definition QueryUnescape :: "string \<Rightarrow> string option" where
  "QueryUnescape s = unescape s encodeQueryComponent"

record URL =
  Scheme :: string
  Host :: string

definition stringContainsCTLByte :: "string \<Rightarrow> bool" where
  "stringContainsCTLByte s = list_ex (\<lambda>b. byte b < byte CHR '' '' \<or> byte b = 0x7f) s"

fun getScheme_loop :: "string \<Rightarrow> nat \<Rightarrow> string \<Rightarrow> (string \<times> string) option" where
  "getScheme_loop rawURL i [] = Some ([], rawURL)"
| "getScheme_loop rawURL i (c # cs) =
     (if isalpha c then getScheme_loop rawURL (Suc i) cs
      else if isdigit c \<or> c = CHR ''+'' \<or> c = CHR ''-'' \<or> c = CHR ''.'' then
        (if i = 0 then Some ([], rawURL) else getScheme_loop rawURL (Suc i) cs)
      else if c = CHR '':'' then
        (if i = 0 then None else Some (take i rawURL, drop (Suc i) rawURL))
      else Some ([], rawURL))"

definition getScheme :: "string \<Rightarrow> (string \<times> string) option" where
  "getScheme rawURL = getScheme_loop rawURL 0 rawURL"

definition ToLower :: "string \<Rightarrow> string" where
  "ToLower s =
     map (\<lambda>c. if byte CHR ''A'' \<le> byte c \<and> byte c \<le> byte CHR ''Z''
              then char_of (byte c + (byte CHR ''a'' - byte CHR ''A'')) else c) s"

text \<open>Positions of a byte and of a substring; \<open>None\<close> is Go's \<^verbatim>\<open>-1\<close>.\<close>

fun IndexFrom :: "nat \<Rightarrow> string \<Rightarrow> string \<Rightarrow> nat option" where
  "IndexFrom i [] substr = (if substr = [] then Some i else None)"
| "IndexFrom i (c # cs) substr =
     (if HasPrefix (c # cs) substr then Some i else IndexFrom (Suc i) cs substr)"

definition Index :: "string \<Rightarrow> string \<Rightarrow> nat option" where
  "Index s substr = IndexFrom 0 s substr"

definition LastIndexByte :: "string \<Rightarrow> char \<Rightarrow> nat option" where
  "LastIndexByte s c =
     (if c \<in> set s then Some (length s - 1 - length (takeWhile (\<lambda>b. b \<noteq> c) (rev s))) else None)"

definition validOptionalPort :: "string \<Rightarrow> bool" where
  "validOptionalPort port =
     (case port of [] \<Rightarrow> True | c # ds \<Rightarrow> c = CHR '':'' \<and> list_all isdigit ds)"

definition validUserinfo :: "string \<Rightarrow> bool" where
  "validUserinfo s =
     list_all (\<lambda>r. isalpha r \<or> isdigit r \<or> r \<in> set ''-._:~!$&'()*+,;=%@'') s"

definition parseHost :: "string \<Rightarrow> string option" where
  "parseHost host =
     (if HasPrefix host ''['' then
        (case LastIndexByte host CHR '']'' of
           None \<Rightarrow> None
         | Some i \<Rightarrow>
             if \<not> validOptionalPort (drop (Suc i) host) then None
             else (case Index (take i host) ''%25'' of
                     Some zone \<Rightarrow>
                       (case (unescape (take zone host) encodeHost,
                              unescape (drop zone (take i host)) encodeZone,
                              unescape (drop i host) encodeHost) of
                          (Some host1, Some host2, Some host3) \<Rightarrow> Some (host1 @ host2 @ host3)
                        | _ \<Rightarrow> None)
                   | None \<Rightarrow> unescape host encodeHost))
      else if (case LastIndexByte host CHR '':'' of
                 None \<Rightarrow> False
               | Some i \<Rightarrow> \<not> validOptionalPort (drop i host)) then None
      else unescape host encodeHost)"

definition parseAuthority :: "string \<Rightarrow> string option" where
  "parseAuthority authority =
     (case LastIndexByte authority CHR ''@'' of
        None \<Rightarrow> parseHost authority
      | Some i \<Rightarrow>
          (case parseHost (drop (Suc i) authority) of
             None \<Rightarrow> None
           | Some host \<Rightarrow>
               let userinfo = take i authority in
               if \<not> validUserinfo userinfo then None
               else if \<not> Contains userinfo '':'' then
                 (if unescape userinfo encodeUserPassword = None then None else Some host)
               else
                 let username = takeWhile (\<lambda>c. c \<noteq> CHR '':'') userinfo;
                     password = drop (Suc (length username)) userinfo
                 in if unescape username encodeUserPassword = None
                       \<or> unescape password encodeUserPassword = None then None
                    else Some host))"

text \<open>\<^verbatim>\<open>parse(rawURL, viaRequest)\<close> with \<^verbatim>\<open>viaRequest = false\<close>, as \<^verbatim>\<open>Parse\<close> calls it.\<close>

definition url_parse :: "string \<Rightarrow> URL option" where
  "url_parse rawURL =
     (if stringContainsCTLByte rawURL then None
      else if rawURL = ''*'' then Some \<lparr>Scheme = [], Host = []\<rparr>
      else
        (case getScheme rawURL of
           None \<Rightarrow> None
         | Some (scheme, rest0) \<Rightarrow>
             let rest = takeWhile (\<lambda>c. c \<noteq> CHR ''?'') rest0 in
             if \<not> HasPrefix rest ''/'' \<and> scheme \<noteq> [] then
               Some \<lparr>Scheme = ToLower scheme, Host = []\<rparr>
             else if \<not> HasPrefix rest ''/''
                     \<and> Contains (takeWhile (\<lambda>c. c \<noteq> CHR ''/'') rest) '':'' then None
             else if (scheme \<noteq> [] \<or> \<not> HasPrefix rest ''///'') \<and> HasPrefix rest ''//'' then
               (let authority = takeWhile (\<lambda>c. c \<noteq> CHR ''/'') (drop 2 rest);
                    rest' = dropWhile (\<lambda>c. c \<noteq> CHR ''/'') (drop 2 rest)
                in case parseAuthority authority of
                     None \<Rightarrow> None
                   | Some host \<Rightarrow>
                       if unescape rest' encodePath = None then None
                       else Some \<lparr>Scheme = ToLower scheme, Host = host\<rparr>)
             else if unescape rest encodePath = None then None
             else Some \<lparr>Scheme = ToLower scheme, Host = []\<rparr>))"

definition Parse :: "string \<Rightarrow> URL option" where
  "Parse rawURL =
     (let u = takeWhile (\<lambda>c. c \<noteq> CHR ''#'') rawURL;
          frag = drop (Suc (length u)) rawURL
      in case url_parse u of
           None \<Rightarrow> None
         | Some url \<Rightarrow>
             if frag = [] then Some url
             else if unescape frag encodeFragment = None then None
             else Some url)"

text \<open>\<^verbatim>\<open>(*URL).Hostname\<close>: the host without a valid port and without IPv6 brackets.\<close>

definition Hostname :: "URL \<Rightarrow> string" where
  "Hostname u =
     (let host = (case LastIndexByte (Host u) CHR '':'' of
                    None \<Rightarrow> Host u
                  | Some colon \<Rightarrow>
                      if validOptionalPort (drop colon (Host u)) then take colon (Host u)
                      else Host u)
      in if HasPrefix host ''['' \<and> HasSuffix host '']'' then take (length host - 2) (drop 1 host)
         else host)"

text \<open>
  \<^verbatim>\<open>net.ParseIP\<close>: the first \<^verbatim>\<open>.\<close> or \<^verbatim>\<open>:\<close> of the text decides between the IPv4 and the
  IPv6 parser; a text with neither is no address.  Only whether the result is \<^verbatim>\<open>nil\<close>
  matters to the program, so the parsers return a truth value.
\<close>

text \<open>\<^verbatim>\<open>dtoi\<close> and \<^verbatim>\<open>xtoi\<close>: the leading number (a Go \<^verbatim>\<open>int\<close>, which the guard \<^verbatim>\<open>big\<close> keeps
  far from overflow), the count of bytes read, and success.\<close>

definition big :: int where
  "big = 0xFFFFFF"

fun dtoi_loop :: "int \<Rightarrow> nat \<Rightarrow> string \<Rightarrow> int \<times> nat \<times> bool" where
  "dtoi_loop n i [] = (if i = 0 then (0, 0, False) else (n, i, True))"
| "dtoi_loop n i (c # cs) =
     (if isdigit c then
        (let n' = n * 10 + (byte c - byte CHR ''0'')
         in if n' \<ge> big then (big, i, False) else dtoi_loop n' (Suc i) cs)
      else if i = 0 then (0, 0, False) else (n, i, True))"

definition dtoi :: "string \<Rightarrow> int \<times> nat \<times> bool" where
  "dtoi s = dtoi_loop 0 0 s"

fun xtoi_loop :: "int \<Rightarrow> nat \<Rightarrow> string \<Rightarrow> int \<times> nat \<times> bool" where
  "xtoi_loop n i [] = (if i = 0 then (0, i, False) else (n, i, True))"
| "xtoi_loop n i (c # cs) =
     (if ishex c then
        (let n' = n * 16 + unhex c
         in if n' \<ge> big then (0, i, False) else xtoi_loop n' (Suc i) cs)
      else if i = 0 then (0, i, False) else (n, i, True))"

definition xtoi :: "string \<Rightarrow> int \<times> nat \<times> bool" where
  "xtoi s = xtoi_loop 0 0 s"

text \<open>
  \<^verbatim>\<open>parseIPv4\<close>: four decimal fields of at most 255, without leading zeros, separated by
  dots.  \<open>k\<close> counts the fields still to be read and \<open>first\<close> says that no field has
  been read yet.
\<close>

fun parseIPv4_loop :: "nat \<Rightarrow> bool \<Rightarrow> string \<Rightarrow> bool" where
  "parseIPv4_loop 0 first s = (s = [])"
| "parseIPv4_loop (Suc k) first s =
     (if s = [] then False
      else if \<not> first \<and> hd s \<noteq> CHR ''.'' then False
      else
        (let s1 = (if first then s else tl s);
             (n, c, ok) = dtoi s1
         in if \<not> ok \<or> n > 0xFF then False
            else if c > 1 \<and> hd s1 = CHR ''0'' then False
            else parseIPv4_loop k False (drop c s1)))"

definition parseIPv4 :: "string \<Rightarrow> bool" where
  "parseIPv4 s = parseIPv4_loop 4 True s"

text \<open>
  \<^verbatim>\<open>parseIPv6\<close>: groups of hex digits separated by colons, at most one \<^verbatim>\<open>::\<close>, and
  possibly a trailing IPv4 address.  \<open>k\<close> counts the 16-bit groups still free (the
  source's \<^verbatim>\<open>i\<close> is \<open>16 - 2 * k\<close>) and \<open>ellipsis\<close> says that a \<^verbatim>\<open>::\<close> has been seen.
  After the loop the whole text must be used, and the address is complete exactly when
  no \<^verbatim>\<open>::\<close> is left to expand.
\<close>

fun parseIPv6_loop :: "nat \<Rightarrow> bool \<Rightarrow> string \<Rightarrow> bool" where
  "parseIPv6_loop 0 ellipsis s = (s = [] \<and> \<not> ellipsis)"
| "parseIPv6_loop (Suc k) ellipsis s =
     (let (n, c, ok) = xtoi s
      in if \<not> ok \<or> n > 0xFFFF then False
         else if c < length s \<and> s ! c = CHR ''.'' then
           (if \<not> ellipsis \<and> Suc k \<noteq> 2 then False
            else if Suc k < 2 then False
            else if \<not> parseIPv4 s then False
            else if Suc k > 2 then ellipsis else \<not> ellipsis)
         else
           (let s1 = drop c s
            in if s1 = [] then (if k > 0 then ellipsis else \<not> ellipsis)
               else if hd s1 \<noteq> CHR '':'' \<or> length s1 = 1 then False
               else if hd (tl s1) = CHR '':'' then
                 (if ellipsis then False
                  else if tl (tl s1) = [] then k > 0
                  else parseIPv6_loop k True (tl (tl s1)))
               else parseIPv6_loop k ellipsis (tl s1)))"

definition parseIPv6 :: "string \<Rightarrow> bool" where
  "parseIPv6 s =
     (if HasPrefix s ''::'' then
        (if drop 2 s = [] then True else parseIPv6_loop 8 True (drop 2 s))
      else parseIPv6_loop 8 False s)"

fun ParseIP_loop :: "string \<Rightarrow> string \<Rightarrow> bool" where
  "ParseIP_loop s [] = False"
| "ParseIP_loop s (c # cs) =
     (if c = CHR ''.'' then parseIPv4 s
      else if c = CHR '':'' then parseIPv6 s
      else ParseIP_loop s cs)"

definition ParseIP :: "string \<Rightarrow> bool" where
  "ParseIP s = ParseIP_loop s s"

section \<open>Classification tags and deduplication\<close>

text \<open>\<^verbatim>\<open>type t int\<close> with the constants \<^verbatim>\<open>unknown = 0\<close>, \<^verbatim>\<open>ip\<close>, \<^verbatim>\<open>domain\<close>, \<^verbatim>\<open>domainKeyword\<close>.\<close>

datatype t = unknown | ip | domain | domainKeyword

text \<open>
  \<^verbatim>\<open>uniqueList\<close>: the loop over \<^verbatim>\<open>list\<close> with the map \<^verbatim>\<open>m\<close> of values already seen
  (a missing key reads as \<^verbatim>\<open>false\<close>) and the slice \<^verbatim>\<open>newList\<close> that is appended to.
  A \<^verbatim>\<open>nil\<close> slice and an empty one are both the empty list.
\<close>

fun uniqueList_loop :: "(string \<Rightarrow> bool) \<Rightarrow> string list \<Rightarrow> string list \<Rightarrow> string list" where
  "uniqueList_loop m newList [] = newList"
| "uniqueList_loop m newList (v # list) =
     (if m v \<or> v = [] then uniqueList_loop m newList list
      else uniqueList_loop (m(v := True)) (newList @ [v]) list)"

definition uniqueList :: "string list \<Rightarrow> string list" where
  "uniqueList list = uniqueList_loop (\<lambda>_. False) [] list"

text \<open>The position of the first occurrence of \<open>v\<close> in \<open>xs\<close> (\<open>length xs\<close> if there is none).\<close>

definition first_index :: "'a list \<Rightarrow> 'a \<Rightarrow> nat" where
  "first_index xs v = length (takeWhile (\<lambda>y. y \<noteq> v) xs)"

text \<open>
  A list with every repetition after the first occurrence removed; the closed form of
  what the loop of \<^verbatim>\<open>uniqueList\<close> builds.
\<close>

fun keep_first :: "'a list \<Rightarrow> 'a list" where
  "keep_first [] = []"
| "keep_first (x # xs) = x # keep_first (removeAll x xs)"

section \<open>Rendering\<close>

text \<open>
  \<^verbatim>\<open>renderClashRules\<close>: three loops, each appending one formatted rule per entry to
  \<^verbatim>\<open>rules\<close>.  \<^verbatim>\<open>fmt.Sprintf\<close> with \<^verbatim>\<open>%s\<close> on a string inserts it unchanged.
\<close>

fun append_rules :: "(string \<Rightarrow> string) \<Rightarrow> string list \<Rightarrow> string list \<Rightarrow> string list" where
  "append_rules fmt rules [] = rules"
| "append_rules fmt rules (v # vs) = append_rules fmt (rules @ [fmt v]) vs"

definition fmt_domainKeyword :: "string \<Rightarrow> string" where
  "fmt_domainKeyword v = ''DOMAIN-KEYWORD,'' @ v"

definition fmt_ip :: "string \<Rightarrow> string" where
  "fmt_ip v = ''SRC-IP-CIDR,'' @ v @ ''/32''"

definition fmt_domain :: "string \<Rightarrow> string" where
  "fmt_domain v = ''DOMAIN-SUFFIX,'' @ v"

definition renderClashRules :: "string list \<Rightarrow> string list \<Rightarrow> string list \<Rightarrow> string list" where
  "renderClashRules domainList ipList domainKeywordList =
     (let rules = [];
          rules = append_rules fmt_domainKeyword rules domainKeywordList;
          rules = append_rules fmt_ip rules ipList;
          rules = append_rules fmt_domain rules domainList
      in rules)"

section \<open>Classifying one line\<close>

text \<open>\<^verbatim>\<open>isIP\<close>: \<^verbatim>\<open>net.ParseIP(v) != nil\<close>.\<close>

definition isIP :: "string \<Rightarrow> bool" where
  "isIP v = ParseIP v"

text \<open>
  A run-time panic of the Go program (here: a slice expression out of range).  Nothing
  in the package recovers from it, so it ends the process.
\<close>

datatype panic = SliceBoundsOutOfRange

text \<open>
  \<^verbatim>\<open>tryGetDomain\<close>.  The deferred function trims \<^verbatim>\<open>*\<close> from both ends of the named result
  \<^verbatim>\<open>vv\<close> on every return; when the body panics it runs too, but the panic goes on.
  \<^verbatim>\<open>pairs[len(pairs)-2:]\<close> panics when \<^verbatim>\<open>pairs\<close> has fewer than two elements.
  The error of \<^verbatim>\<open>QueryUnescape\<close> is dropped, which leaves the empty string in \<^verbatim>\<open>v\<close>.
\<close>

definition tryGetDomain_body :: "string \<Rightarrow> bool \<Rightarrow> panic + (t \<times> string)" where
  "tryGetDomain_body v full =
     (let v = (if \<not> HasPrefix v ''http://'' then ''http://'' @ v else v);
          v = (case QueryUnescape v of None \<Rightarrow> [] | Some v' \<Rightarrow> v')
      in case Parse v of
           None \<Rightarrow> Inr (unknown, [])
         | Some parse \<Rightarrow>
             if isIP (Hostname parse) then Inr (ip, Hostname parse)
             else if full then Inr (domain, Hostname parse)
             else
               (let pairs = Split (Hostname parse) ''.''
                in if length pairs < 2 then Inl SliceBoundsOutOfRange
                   else Inr (domain, Join (drop (length pairs - 2) pairs) ''.'')))"

definition tryGetDomain :: "string \<Rightarrow> bool \<Rightarrow> panic + (t \<times> string)" where
  "tryGetDomain v full =
     (case tryGetDomain_body v full of
        Inl p \<Rightarrow> Inl p
      | Inr (typ, vv) \<Rightarrow> Inr (typ, Trim vv ''*''))"

definition tryGetDomainOrIP :: "string \<Rightarrow> panic + (t \<times> string)" where
  "tryGetDomainOrIP v = tryGetDomain v False"

text \<open>
  \<^verbatim>\<open>parseLine\<close>, branch by branch in the order of the source.  The receiver is not used.
\<close>

definition parseLine :: "string \<Rightarrow> panic + (t \<times> string)" where
  "parseLine line =
     (if HasPrefix line ''|'' then
        (let line = TrimLeft line ''|'';
             line = TrimLeft line ''http://''
         in tryGetDomain line True)
      else if HasPrefix line ''||'' \<or> HasPrefix line ''http://'' then
        (let line = TrimLeft line ''|'';
             line = TrimLeft line ''http://'';
             line = TrimLeft line ''https://''
         in tryGetDomainOrIP line)
      else if HasPrefix line ''.'' then
        (let line = TrimLeft line ''.''
         in case tryGetDomainOrIP line of
              Inl p \<Rightarrow> Inl p
            | Inr (typ, v) \<Rightarrow>
                if HasSuffix v ''*'' then Inr (domainKeyword, hd (Split v ''.''))
                else Inr (typ, v))
      else if Contains line ''.'' then tryGetDomain line True
      else if isIP line then Inr (ip, line)
      else Inr (unknown, []))"

section \<open>Parsing a document\<close>

text \<open>
  Errors are values.  An error that comes out of the library (transport, base64, scanner,
  YAML) is opaque and kept by its message; \<^verbatim>\<open>fmt.Errorf("%w", err)\<close> wraps an error and
  \<^verbatim>\<open>fmt.Errorf\<close> with a message makes a new one.
\<close>

datatype go_error = LibraryError string | Wrapped go_error | Errorf string

text \<open>
  An \<^verbatim>\<open>io.ReadCloser\<close> is what can be read from it: its bytes, and the error (if any) that
  ends the stream instead of \<^verbatim>\<open>EOF\<close>.
\<close>

record ReadCloser =
  content :: string
  readErr :: "go_error option"

record Response =
  StatusCode :: int
  Body :: ReadCloser

text \<open>
  What lies outside the program during one refresh cycle: the outcome of
  \<^verbatim>\<open>http.Get(gfwlistDownloadURL)\<close>; the lines that \<^verbatim>\<open>bufio.Scanner\<close> delivers from the base64
  decoder over a stream, with the scanner's final error; and \<^verbatim>\<open>yaml.Marshal\<close> of the map
  that holds the rules under \<^verbatim>\<open>payload\<close>.
\<close>

record world =
  http_Get :: "go_error + Response"
  base64_scan :: "ReadCloser \<Rightarrow> string list \<times> go_error option"
  yaml_Marshal :: "string list \<Rightarrow> go_error + string"

text \<open>
  The loop of \<^verbatim>\<open>parseToList\<close> over the scanned lines: empty lines and lines that begin with
  one of \<^verbatim>\<open>! [ / @\<close> are skipped, every other line is classified and its value appended to
  the list of its tag.  A panic in \<^verbatim>\<open>parseLine\<close> ends the loop.  Closing the stream and
  writing to the log change none of the results and are left out.
\<close>

fun scan_loop ::
  "string list \<Rightarrow> string list \<times> string list \<times> string list
     \<Rightarrow> panic + (string list \<times> string list \<times> string list)" where
  "scan_loop [] acc = Inr acc"
| "scan_loop (line # rest) (domainList, ipList, domainKeywordList) =
     (if line = [] then scan_loop rest (domainList, ipList, domainKeywordList)
      else if hd line \<in> set ''![/@'' then scan_loop rest (domainList, ipList, domainKeywordList)
      else
        (case parseLine line of
           Inl p \<Rightarrow> Inl p
         | Inr (typ, v) \<Rightarrow>
             (case typ of
                ip \<Rightarrow> scan_loop rest (domainList, ipList @ [v], domainKeywordList)
              | domain \<Rightarrow> scan_loop rest (domainList @ [v], ipList, domainKeywordList)
              | domainKeyword \<Rightarrow> scan_loop rest (domainList, ipList, domainKeywordList @ [v])
              | unknown \<Rightarrow> scan_loop rest (domainList, ipList, domainKeywordList))))"

definition parseToList ::
  "world \<Rightarrow> ReadCloser
     \<Rightarrow> panic + (string list \<times> string list \<times> string list \<times> go_error option)" where
  "parseToList w rc =
     (case scan_loop (fst (base64_scan w rc)) ([], [], []) of
        Inl p \<Rightarrow> Inl p
      | Inr (domainList, ipList, domainKeywordList) \<Rightarrow>
          Inr (uniqueList domainList, uniqueList ipList, domainKeywordList,
               snd (base64_scan w rc)))"

section \<open>The provider\<close>

text \<open>
  \<^verbatim>\<open>time.Duration\<close> is an \<^verbatim>\<open>int64\<close> of nanoseconds; \<^verbatim>\<open>time.Hour\<close> is \<open>3600 * 10\<^sup>9\<close> of them.
  The mutex of the provider orders the accesses to \<^verbatim>\<open>rules\<close> and has no state of its
  own in a sequential model.
\<close>

definition defaultInterval :: "64 word" where
  "defaultInterval = 3600000000000"

record gfwlistProvider =
  interval :: "64 word"
  rules :: string

definition Handle :: "gfwlistProvider \<Rightarrow> string" where
  "Handle s = rules s"

text \<open>\<^verbatim>\<open>%d\<close> of an integer: its decimal digits, after a minus sign if it is negative.\<close>

fun digits_of :: "nat \<Rightarrow> string" where
  "digits_of n =
     (if n < 10 then [char_of (48 + n)]
      else digits_of (n div 10) @ [char_of (48 + n mod 10)])"

declare digits_of.simps [simp del]

definition fmt_d :: "int \<Rightarrow> string" where
  "fmt_d i = (if i < 0 then CHR ''-'' # digits_of (nat (- i)) else digits_of (nat i))"

text \<open>\<^verbatim>\<open>ioutil.ReadAll\<close> returns the bytes read and the error that stopped the reading.\<close>

definition ReadAll :: "ReadCloser \<Rightarrow> string \<times> go_error option" where
  "ReadAll rc = (content rc, readErr rc)"

definition download :: "world \<Rightarrow> go_error + ReadCloser" where
  "download w =
     (case http_Get w of
        Inl err \<Rightarrow> Inl (Wrapped err)
      | Inr resp \<Rightarrow>
          if StatusCode resp \<noteq> 200 then
            (let body = fst (ReadAll (Body resp))
             in Inl (Errorf (''download gfwlist failed, code: '' @ fmt_d (StatusCode resp)
                             @ '', body: '' @ body)))
          else Inr (Body resp))"

text \<open>
  \<^verbatim>\<open>update\<close> returns its error (\<open>None\<close> is \<^verbatim>\<open>nil\<close>) and the provider as it leaves it.  A
  panic while parsing leaves \<^verbatim>\<open>update\<close> without a result.
\<close>

definition update :: "world \<Rightarrow> gfwlistProvider \<Rightarrow> panic + (go_error option \<times> gfwlistProvider)" where
  "update w s =
     (case download w of
        Inl err \<Rightarrow> Inr (Some err, s)
      | Inr rc \<Rightarrow>
          (case parseToList w rc of
             Inl p \<Rightarrow> Inl p
           | Inr (domains, ips, domainKeywords, err) \<Rightarrow>
               (case err of
                  Some e \<Rightarrow> Inr (Some e, s)
                | None \<Rightarrow>
                    (case yaml_Marshal w (renderClashRules domains ips domainKeywords) of
                       Inl e \<Rightarrow> Inr (Some e, s)
                     | Inr b \<Rightarrow> Inr (None, s\<lparr>rules := b\<rparr>)))))"

text \<open>
  \<^verbatim>\<open>start\<close> never returns: it updates once, chooses the interval, arms a timer with it
  and, at every tick, updates and resets the timer with the same interval.  The model
  runs it over the first update and a finite number of ticks, each in the world it finds,
  and returns the durations the timer was armed with (\<^verbatim>\<open>NewTimer\<close>, then each \<^verbatim>\<open>Reset\<close>)
  and the provider after the last tick.  The outcome of an update is only logged.
\<close>

definition start_interval :: "gfwlistProvider \<Rightarrow> 64 word" where
  "start_interval s = (if interval s \<le>s 0 then defaultInterval else interval s)"

fun timer_loop ::
  "64 word \<Rightarrow> 64 word list \<Rightarrow> world list \<Rightarrow> gfwlistProvider
     \<Rightarrow> panic + (64 word list \<times> gfwlistProvider)" where
  "timer_loop d armed [] s = Inr (armed, s)"
| "timer_loop d armed (w # ticks) s =
     (case update w s of
        Inl p \<Rightarrow> Inl p
      | Inr (err, s') \<Rightarrow> timer_loop d (armed @ [d]) ticks s')"

definition start ::
  "world \<Rightarrow> world list \<Rightarrow> gfwlistProvider \<Rightarrow> panic + (64 word list \<times> gfwlistProvider)" where
  "start w ticks s =
     (case update w s of
        Inl p \<Rightarrow> Inl p
      | Inr (err, s') \<Rightarrow> timer_loop (start_interval s') [start_interval s'] ticks s')"

section \<open>Properties of rendering\<close>

lemma append_rules_eq: "append_rules f rs vs = rs @ map f vs"
  by (induction vs arbitrary: rs) simp_all

text \<open>
  C4.  \<^verbatim>\<open>renderClashRules\<close> returns one line per entry: first the domain keywords as
  \<^verbatim>\<open>DOMAIN-KEYWORD,<value>\<close>, then the addresses as \<^verbatim>\<open>SRC-IP-CIDR,<value>/32\<close>, then the
  domains as \<^verbatim>\<open>DOMAIN-SUFFIX,<value>\<close>, each block in the order of its list, with nothing
  sorted or interleaved.
\<close>

theorem renderClashRules_blocks:
  "renderClashRules domainList ipList domainKeywordList =
     map (\<lambda>v. ''DOMAIN-KEYWORD,'' @ v) domainKeywordList
     @ map (\<lambda>v. ''SRC-IP-CIDR,'' @ v @ ''/32'') ipList
     @ map (\<lambda>v. ''DOMAIN-SUFFIX,'' @ v) domainList
   \<and> length (renderClashRules domainList ipList domainKeywordList) =
       length domainKeywordList + length ipList + length domainList"
  unfolding renderClashRules_def Let_def append_rules_eq
    fmt_domainKeyword_def fmt_ip_def fmt_domain_def
  by simp

section \<open>Properties of classification\<close>

text \<open>
  C8.  The line \<^verbatim>\<open>.ads.example.com\<close>: the leading dot is stripped, the URL parser finds the
  host \<^verbatim>\<open>ads.example.com\<close>, and \<^verbatim>\<open>parseLine\<close> returns the tag \<^verbatim>\<open>domain\<close> with the last two
  labels, \<^verbatim>\<open>example.com\<close>.
\<close>

theorem parseLine_leading_dot:
  "TrimLeft ''.ads.example.com'' ''.'' = ''ads.example.com''
   \<and> map_option Hostname (Parse ''http://ads.example.com'') = Some ''ads.example.com''
   \<and> parseLine ''.ads.example.com'' = Inr (domain, ''example.com'')"
  by code_simp

text \<open>
  C1, evaluated.  A line that starts with \<^verbatim>\<open>||\<close> also starts with \<^verbatim>\<open>|\<close>, so the first
  branch of \<^verbatim>\<open>parseLine\<close> takes it and the host is returned in full: the branch that
  tests for \<^verbatim>\<open>||\<close> and keeps the last two labels is never reached.  On
  \<^verbatim>\<open>||tracker.example.org^\<close> the cutset of \<^verbatim>\<open>TrimLeft\<close> also removes the \<^verbatim>\<open>t\<close>, and the URL
  parser rejects the \<^verbatim>\<open>^\<close> in the host, which leaves the tag \<^verbatim>\<open>unknown\<close>.
\<close>

theorem parseLine_double_pipe:
  "parseLine ''||www.example.org'' = Inr (domain, ''www.example.org'')
   \<and> TrimLeft (TrimLeft ''||tracker.example.org^'' ''|'') ''http://'' = ''racker.example.org^''
   \<and> Parse ''http://racker.example.org^'' = None
   \<and> parseLine ''||tracker.example.org^'' = Inr (unknown, [])"
  by code_simp

text \<open>
  C5, evaluated.  When the host has fewer than two labels, \<^verbatim>\<open>pairs[len(pairs)-2:]\<close> is out
  of range and \<^verbatim>\<open>parseLine\<close> panics: so on \<^verbatim>\<open>.foo\<close>, on \<^verbatim>\<open>...\<close> and on \<^verbatim>\<open>http://foo\<close>.
\<close>

theorem parseLine_panics:
  "parseLine ''.foo'' = Inl SliceBoundsOutOfRange
   \<and> parseLine ''...'' = Inl SliceBoundsOutOfRange
   \<and> parseLine ''http://foo'' = Inl SliceBoundsOutOfRange"
  by code_simp

lemma drop_last_rev: "ys \<noteq> [] \<Longrightarrow> drop (length ys - 1) (rev ys) = [hd ys]"
  by (cases ys) simp_all

lemma TrimRight_no_suffix: "\<not> HasSuffix (TrimRight s ''*'') ''*''"
proof
  define ys where "ys = dropWhile (\<lambda>c. c \<in> set ''*'') (rev s)"
  assume "HasSuffix (TrimRight s ''*'') ''*''"
  then have h: "1 \<le> length ys \<and> drop (length ys - 1) (rev ys) = ''*''"
    unfolding HasSuffix_def TrimRight_def ys_def by simp
  then have ne: "ys \<noteq> []" by auto
  from drop_last_rev [OF ne] h have "hd ys = CHR ''*''" by simp
  moreover from ne have "\<not> hd ys \<in> set ''*''"
    unfolding ys_def by (rule hd_dropWhile)
  ultimately show False by simp
qed

lemma Trim_no_suffix: "\<not> HasSuffix (Trim s ''*'') ''*''"
  unfolding Trim_def by (rule TrimRight_no_suffix)

lemma tryGetDomain_body_tag:
  "tryGetDomain_body v full = Inr (typ, vv) \<Longrightarrow> typ \<noteq> domainKeyword"
  unfolding tryGetDomain_body_def Let_def
  by (simp split: option.splits if_splits)

lemma tryGetDomain_result:
  assumes "tryGetDomain v full = Inr (typ, vv)"
  shows "typ \<noteq> domainKeyword \<and> \<not> HasSuffix vv ''*''"
proof -
  from assms obtain vv0 where b: "tryGetDomain_body v full = Inr (typ, vv0)"
    and vv: "vv = Trim vv0 ''*''"
    unfolding tryGetDomain_def by (auto split: sum.splits)
  from b have "typ \<noteq> domainKeyword" by (rule tryGetDomain_body_tag)
  moreover from vv have "\<not> HasSuffix vv ''*''" by (simp add: Trim_no_suffix)
  ultimately show ?thesis ..
qed

lemma parseLine_cases:
  assumes "parseLine line = Inr (typ, v)"
  obtains (url) l full where "tryGetDomain l full = Inr (typ, v)"
    | (address) "typ = ip"
    | (skip) "typ = unknown"
proof (cases "HasPrefix line ''|''")
  case True
  with assms have "tryGetDomain (TrimLeft (TrimLeft line ''|'') ''http://'') True = Inr (typ, v)"
    by (simp add: parseLine_def)
  then show ?thesis by (rule url)
next
  case n1: False
  show ?thesis
  proof (cases "HasPrefix line ''||'' \<or> HasPrefix line ''http://''")
    case True
    with n1 assms have "tryGetDomain
        (TrimLeft (TrimLeft (TrimLeft line ''|'') ''http://'') ''https://'') False = Inr (typ, v)"
      by (simp add: parseLine_def tryGetDomainOrIP_def)
    then show ?thesis by (rule url)
  next
    case n2: False
    show ?thesis
    proof (cases "HasPrefix line ''.''")
      case True
      with n1 n2 assms have p: "(case tryGetDomain (TrimLeft line ''.'') False of
              Inl p \<Rightarrow> Inl p
            | Inr (typ, v) \<Rightarrow>
                if HasSuffix v ''*'' then Inr (domainKeyword, hd (Split v ''.''))
                else Inr (typ, v)) = Inr (typ, v)"
        by (simp add: parseLine_def tryGetDomainOrIP_def)
      then obtain typ0 v0 where r: "tryGetDomain (TrimLeft line ''.'') False = Inr (typ0, v0)"
        by (cases "tryGetDomain (TrimLeft line ''.'') False") auto
      from tryGetDomain_result [OF r] have "\<not> HasSuffix v0 ''*''" by simp
      with p r have "typ0 = typ" and "v0 = v" by simp_all
      with r show ?thesis by (auto intro: url)
    next
      case n3: False
      show ?thesis
      proof (cases "Contains line ''.''")
        case True
        with n1 n2 n3 assms have "tryGetDomain line True = Inr (typ, v)"
          by (simp add: parseLine_def)
        then show ?thesis by (rule url)
      next
        case False
        with n1 n2 n3 assms have "typ = ip \<or> typ = unknown"
          by (simp add: parseLine_def split: if_splits)
        then show ?thesis using address skip by blast
      qed
    qed
  qed
qed


lemma parseLine_tag:
  assumes "parseLine line = Inr (typ, v)"
  shows "typ \<noteq> domainKeyword"
  using assms
proof (cases rule: parseLine_cases)
  case (url l full)
  then show ?thesis by (simp add: tryGetDomain_result)
next
  case address
  then show ?thesis by simp
next
  case skip
  then show ?thesis by simp
qed

lemma scan_loop_keywords:
  "scan_loop lines (dl, il, kl) = Inr (dl', il', kl') \<Longrightarrow> kl' = kl"
proof (induction lines arbitrary: dl il kl)
  case Nil
  then show ?case by simp
next
  case (Cons line rest)
  show ?case
  proof (cases "line = [] \<or> hd line \<in> set ''![/@''")
    case True
    with Cons.prems have "scan_loop rest (dl, il, kl) = Inr (dl', il', kl')"
      by (simp split: if_splits)
    then show ?thesis by (rule Cons.IH)
  next
    case False
    with Cons.prems obtain ty v where pl: "parseLine line = Inr (ty, v)"
      by (cases "parseLine line") (auto split: if_splits)
    then have tag: "ty \<noteq> domainKeyword" by (rule parseLine_tag)
    show ?thesis
    proof (cases ty)
      case unknown
      with False pl Cons.prems have "scan_loop rest (dl, il, kl) = Inr (dl', il', kl')"
        by (simp split: if_splits)
      then show ?thesis by (rule Cons.IH)
    next
      case ip
      with False pl Cons.prems have "scan_loop rest (dl, il @ [v], kl) = Inr (dl', il', kl')"
        by (simp split: if_splits)
      then show ?thesis by (rule Cons.IH)
    next
      case domain
      with False pl Cons.prems have "scan_loop rest (dl @ [v], il, kl) = Inr (dl', il', kl')"
        by (simp split: if_splits)
      then show ?thesis by (rule Cons.IH)
    next
      case domainKeyword
      with tag show ?thesis by simp
    qed
  qed
qed

lemma parseToList_keywords:
  assumes "parseToList w rc = Inr (domainList, ipList, domainKeywordList, err)"
  shows "domainKeywordList = []"
proof -
  from assms obtain dl il where
    "scan_loop (fst (base64_scan w rc)) ([], [], []) = Inr (dl, il, domainKeywordList)"
    unfolding parseToList_def by (auto split: sum.splits)
  then show ?thesis by (rule scan_loop_keywords)
qed

lemma no_keyword_line:
  assumes "r \<in> set (renderClashRules domainList ipList [])"
  shows "\<not> HasPrefix r ''DOMAIN-KEYWORD,''"
proof -
  from assms have "(\<exists>v. r = ''SRC-IP-CIDR,'' @ v @ ''/32'') \<or> (\<exists>v. r = ''DOMAIN-SUFFIX,'' @ v)"
    unfolding renderClashRules_def Let_def append_rules_eq fmt_ip_def fmt_domain_def
    by auto
  then show ?thesis
    unfolding HasPrefix_def by auto
qed

lemma update_success:
  assumes "update w s = Inr (None, s')"
  obtains rc domains ips domainKeywords b where
    "download w = Inr rc"
    "parseToList w rc = Inr (domains, ips, domainKeywords, None)"
    "yaml_Marshal w (renderClashRules domains ips domainKeywords) = Inr b"
    "s' = s\<lparr>rules := b\<rparr>"
  using assms unfolding update_def
  by (auto split: sum.splits prod.splits option.splits)

text \<open>
  C6.  \<^verbatim>\<open>parseLine\<close> never returns the tag \<^verbatim>\<open>domainKeyword\<close>: \<^verbatim>\<open>tryGetDomain\<close> has trimmed
  every \<^verbatim>\<open>*\<close> from the ends of the value before \<^verbatim>\<open>parseLine\<close> asks whether it ends with
  \<^verbatim>\<open>*\<close>.  So the keyword list of a parsed document is empty, no rendered rule begins
  with \<^verbatim>\<open>DOMAIN-KEYWORD,\<close>, and the document that a successful \<^verbatim>\<open>update\<close> publishes is the
  YAML of a payload without such a rule.
\<close>

theorem domainKeyword_unreachable:
  "(parseLine line = Inr (ty, v) \<longrightarrow> ty \<noteq> domainKeyword)
   \<and> (parseToList w rc = Inr (domainList, ipList, domainKeywordList, err) \<longrightarrow>
        domainKeywordList = []
        \<and> (\<forall>r\<in>set (renderClashRules domainList ipList domainKeywordList).
              \<not> HasPrefix r ''DOMAIN-KEYWORD,''))
   \<and> (update w s = Inr (None, s') \<longrightarrow>
        (\<exists>payload. yaml_Marshal w payload = Inr (rules s')
           \<and> (\<forall>r\<in>set payload. \<not> HasPrefix r ''DOMAIN-KEYWORD,'')))"
proof (intro conjI impI)
  assume "parseLine line = Inr (ty, v)"
  then show "ty \<noteq> domainKeyword" by (rule parseLine_tag)
next
  assume p: "parseToList w rc = Inr (domainList, ipList, domainKeywordList, err)"
  then show k: "domainKeywordList = []" by (rule parseToList_keywords)
  show "\<forall>r\<in>set (renderClashRules domainList ipList domainKeywordList).
          \<not> HasPrefix r ''DOMAIN-KEYWORD,''"
    unfolding k using no_keyword_line by blast
next
  assume "update w s = Inr (None, s')"
  then obtain rc' domains ips domainKeywords b where
    p: "parseToList w rc' = Inr (domains, ips, domainKeywords, None)"
    and m: "yaml_Marshal w (renderClashRules domains ips domainKeywords) = Inr b"
    and s': "s' = s\<lparr>rules := b\<rparr>"
    by (rule update_success)
  from p have k: "domainKeywords = []" by (rule parseToList_keywords)
  have "\<forall>r\<in>set (renderClashRules domains ips domainKeywords). \<not> HasPrefix r ''DOMAIN-KEYWORD,''"
    unfolding k using no_keyword_line by blast
  with m s' show "\<exists>payload. yaml_Marshal w payload = Inr (rules s')
           \<and> (\<forall>r\<in>set payload. \<not> HasPrefix r ''DOMAIN-KEYWORD,'')"
    by auto
qed

theorem domainKeyword_unreachable_witness:
  "parseLine ''.a.b*'' = Inr (domain, ''a.b'') \<and> domain \<noteq> domainKeyword
   \<and> parseToList
        \<lparr>http_Get = Inr \<lparr>StatusCode = 200, Body = \<lparr>content = ''LmEuYioKMS4yLjMuNAo='', readErr = None\<rparr>\<rparr>,
         base64_scan = (\<lambda>rc. ([''.a.b*'', ''1.2.3.4''], None)),
         yaml_Marshal = (\<lambda>rs. Inr (concat rs))\<rparr>
        \<lparr>content = ''LmEuYioKMS4yLjMuNAo='', readErr = None\<rparr>
       = Inr ([''a.b''], [''1.2.3.4''], [], None)
   \<and> list_all (\<lambda>r. \<not> HasPrefix r ''DOMAIN-KEYWORD,'')
         (renderClashRules [''a.b''] [''1.2.3.4''] [])
   \<and> update
        \<lparr>http_Get = Inr \<lparr>StatusCode = 200, Body = \<lparr>content = ''LmEuYioKMS4yLjMuNAo='', readErr = None\<rparr>\<rparr>,
         base64_scan = (\<lambda>rc. ([''.a.b*'', ''1.2.3.4''], None)),
         yaml_Marshal = (\<lambda>rs. Inr (concat rs))\<rparr>
        \<lparr>interval = 0, rules = []\<rparr>
       = Inr (None, \<lparr>interval = 0, rules = ''SRC-IP-CIDR,1.2.3.4/32DOMAIN-SUFFIX,a.b''\<rparr>)"
proof -
  let ?rc = "\<lparr>content = ''LmEuYioKMS4yLjMuNAo='', readErr = None\<rparr>"
  let ?w = "\<lparr>http_Get = Inr \<lparr>StatusCode = 200, Body = ?rc\<rparr>,
         base64_scan = (\<lambda>rc. ([''.a.b*'', ''1.2.3.4''], None)),
         yaml_Marshal = (\<lambda>rs. Inr (concat rs))\<rparr>"
  have a: "parseLine ''.a.b*'' = Inr (domain, ''a.b'')"
    by code_simp
  have "scan_loop [''.a.b*'', ''1.2.3.4''] ([], [], []) = Inr ([''a.b''], [''1.2.3.4''], [])"
    by code_simp
  then have b: "parseToList ?w ?rc = Inr ([''a.b''], [''1.2.3.4''], [], None)"
    by (simp add: parseToList_def uniqueList_def)
  have r: "renderClashRules [''a.b''] [''1.2.3.4''] [] = [''SRC-IP-CIDR,1.2.3.4/32'', ''DOMAIN-SUFFIX,a.b'']"
    by (simp add: renderClashRules_def fmt_ip_def fmt_domain_def)
  from b r have c: "update ?w \<lparr>interval = 0, rules = []\<rparr>
       = Inr (None, \<lparr>interval = 0, rules = ''SRC-IP-CIDR,1.2.3.4/32DOMAIN-SUFFIX,a.b''\<rparr>)"
    by (simp add: update_def download_def)
  from a b c domainKeyword_unreachable [of "''.a.b*''" domain "''a.b''" ?w ?rc
      "[''a.b'']" "[''1.2.3.4'']" "[]" None "\<lparr>interval = 0, rules = []\<rparr>"
      "\<lparr>interval = 0, rules = ''SRC-IP-CIDR,1.2.3.4/32DOMAIN-SUFFIX,a.b''\<rparr>"]
  show ?thesis by (simp add: list_all_iff)
qed

section \<open>Properties of deduplication\<close>

lemma uniqueList_loop_eq:
  "uniqueList_loop m newList list =
     newList @ keep_first (filter (\<lambda>v. \<not> m v \<and> v \<noteq> []) list)"
proof (induction list arbitrary: m newList)
  case Nil
  then show ?case by simp
next
  case (Cons v list)
  have "filter (\<lambda>u. \<not> (m(v := True)) u \<and> u \<noteq> []) list
        = removeAll v (filter (\<lambda>u. \<not> m u \<and> u \<noteq> []) list)"
    by (induction list) auto
  with Cons show ?case by simp
qed

lemma uniqueList_keep_first: "uniqueList list = keep_first (filter (\<lambda>v. v \<noteq> []) list)"
  by (simp add: uniqueList_def uniqueList_loop_eq)

lemma set_keep_first: "set (keep_first xs) = set xs"
  by (induction xs rule: keep_first.induct) auto

lemma distinct_keep_first: "distinct (keep_first xs)"
  by (induction xs rule: keep_first.induct) (auto simp: set_keep_first)

lemma keep_first_distinct: "distinct xs \<Longrightarrow> keep_first xs = xs"
  by (induction xs) auto

lemma first_index_Cons:
  "first_index (y # ys) a = (if y = a then 0 else Suc (first_index ys a))"
  by (simp add: first_index_def)

lemma first_index_removeAll:
  "a \<noteq> x \<Longrightarrow> b \<noteq> x \<Longrightarrow>
   first_index (removeAll x xs) a < first_index (removeAll x xs) b
     \<longleftrightarrow> first_index xs a < first_index xs b"
  by (induction xs) (auto simp: first_index_Cons)

lemma first_index_keep_first:
  "first_index (keep_first xs) a < first_index (keep_first xs) b
     \<longleftrightarrow> first_index xs a < first_index xs b"
proof (induction xs rule: keep_first.induct)
  case 1
  then show ?case by simp
next
  case (2 x xs)
  then show ?case
    by (auto simp: first_index_Cons first_index_removeAll)
qed

lemma first_index_filter_nonempty:
  "a \<noteq> [] \<Longrightarrow> b \<noteq> [] \<Longrightarrow>
   first_index (filter (\<lambda>v. v \<noteq> []) xs) a < first_index (filter (\<lambda>v. v \<noteq> []) xs) b
     \<longleftrightarrow> first_index xs a < first_index xs b"
  by (induction xs) (auto simp: first_index_Cons)

lemma distinct_uniqueList: "distinct (uniqueList list)"
  by (simp add: uniqueList_keep_first distinct_keep_first)

lemma set_uniqueList: "set (uniqueList list) = set list - {[]}"
  by (auto simp: uniqueList_keep_first set_keep_first)

lemma first_index_uniqueList:
  assumes "a \<in> set (uniqueList list)" and "b \<in> set (uniqueList list)"
  shows "first_index (uniqueList list) a < first_index (uniqueList list) b
           \<longleftrightarrow> first_index list a < first_index list b"
proof -
  from assms have "a \<noteq> []" and "b \<noteq> []"
    by (simp_all add: set_uniqueList)
  then show ?thesis
    by (simp add: uniqueList_keep_first first_index_keep_first first_index_filter_nonempty)
qed

lemma uniqueList_unchanged:
  assumes "distinct list" and "[] \<notin> set list"
  shows "uniqueList list = list"
proof -
  from assms(2) have "filter (\<lambda>v. v \<noteq> []) list = list"
    by (induction list) auto
  with assms(1) show ?thesis
    by (simp add: uniqueList_keep_first keep_first_distinct)
qed

text \<open>
  C9.  \<^verbatim>\<open>uniqueList\<close> is idempotent, and it returns a list that has no duplicates and no
  empty string as it is, in the same order.
\<close>

theorem uniqueList_idempotent:
  "uniqueList (uniqueList list) = uniqueList list
   \<and> (distinct list \<and> [] \<notin> set list \<longrightarrow> uniqueList list = list)"
proof
  have "[] \<notin> set (uniqueList list)"
    by (simp add: set_uniqueList)
  then show "uniqueList (uniqueList list) = uniqueList list"
    using distinct_uniqueList by (rule uniqueList_unchanged [rotated])
  show "distinct list \<and> [] \<notin> set list \<longrightarrow> uniqueList list = list"
    by (simp add: uniqueList_unchanged)
qed

theorem uniqueList_idempotent_witness:
  "distinct [''a.com'', ''b.org''] \<and> [] \<notin> set [''a.com'', ''b.org'']
   \<and> uniqueList [''a.com'', ''b.org''] = [''a.com'', ''b.org'']
   \<and> uniqueList (uniqueList [''a.com'', [], ''b.org'', ''a.com''])
       = uniqueList [''a.com'', [], ''b.org'', ''a.com'']"
  using uniqueList_idempotent [of "[''a.com'', ''b.org'']"]
    uniqueList_idempotent [of "[''a.com'', [], ''b.org'', ''a.com'']"]
  by simp

text \<open>
  C3.  When \<^verbatim>\<open>parseToList\<close> returns, its domain list and its IP list are the accumulated
  lists without duplicates and without empty strings, their entries in the order of their
  first occurrences in the accumulated lists; the keyword list is the accumulated one,
  unchanged.
\<close>

theorem parseToList_dedup:
  assumes "parseToList w rc = Inr (domainList, ipList, domainKeywordList, err)"
  shows "\<exists>dl il kl.
      scan_loop (fst (base64_scan w rc)) ([], [], []) = Inr (dl, il, kl)
      \<and> distinct domainList \<and> [] \<notin> set domainList \<and> set domainList = set dl - {[]}
      \<and> (\<forall>a\<in>set domainList. \<forall>b\<in>set domainList.
            first_index domainList a < first_index domainList b
              \<longleftrightarrow> first_index dl a < first_index dl b)
      \<and> distinct ipList \<and> [] \<notin> set ipList \<and> set ipList = set il - {[]}
      \<and> (\<forall>a\<in>set ipList. \<forall>b\<in>set ipList.
            first_index ipList a < first_index ipList b
              \<longleftrightarrow> first_index il a < first_index il b)
      \<and> domainKeywordList = kl"
proof -
  from assms obtain dl il kl where
    sc: "scan_loop (fst (base64_scan w rc)) ([], [], []) = Inr (dl, il, kl)"
    and r: "domainList = uniqueList dl" "ipList = uniqueList il" "domainKeywordList = kl"
    unfolding parseToList_def by (auto split: sum.splits)
  have "distinct domainList \<and> [] \<notin> set domainList \<and> set domainList = set dl - {[]}"
    unfolding r by (simp add: distinct_uniqueList set_uniqueList)
  moreover have "\<forall>a\<in>set domainList. \<forall>b\<in>set domainList.
            first_index domainList a < first_index domainList b
              \<longleftrightarrow> first_index dl a < first_index dl b"
    unfolding r using first_index_uniqueList by blast
  moreover have "distinct ipList \<and> [] \<notin> set ipList \<and> set ipList = set il - {[]}"
    unfolding r by (simp add: distinct_uniqueList set_uniqueList)
  moreover have "\<forall>a\<in>set ipList. \<forall>b\<in>set ipList.
            first_index ipList a < first_index ipList b
              \<longleftrightarrow> first_index il a < first_index il b"
    unfolding r using first_index_uniqueList by blast
  ultimately show ?thesis using sc r(3) by blast
qed

theorem parseToList_dedup_witness:
  "parseToList
      \<lparr>http_Get = Inl (LibraryError ''unused''),
       base64_scan = (\<lambda>rc. ([''||a.com'', ''.sub.a.com'', ''! comment'', ''1.2.3.4'',
                               ''.x.b.org'', ''|http://a.com/x'', ''1.2.3.4''], None)),
       yaml_Marshal = (\<lambda>rs. Inr (concat rs))\<rparr>
      \<lparr>content = [], readErr = None\<rparr>
     = Inr ([''a.com'', ''b.org''], [''1.2.3.4''], [], None)
   \<and> scan_loop [''||a.com'', ''.sub.a.com'', ''! comment'', ''1.2.3.4'',
                 ''.x.b.org'', ''|http://a.com/x'', ''1.2.3.4''] ([], [], [])
     = Inr ([''a.com'', ''a.com'', ''b.org'', ''a.com''], [''1.2.3.4'', ''1.2.3.4''], [])
   \<and> distinct [''a.com'', ''b.org'']
   \<and> (first_index [''a.com'', ''b.org''] ''a.com'' < first_index [''a.com'', ''b.org''] ''b.org''
        \<longleftrightarrow> first_index [''a.com'', ''a.com'', ''b.org'', ''a.com''] ''a.com''
              < first_index [''a.com'', ''a.com'', ''b.org'', ''a.com''] ''b.org'')"
proof -
  let ?w = "\<lparr>http_Get = Inl (LibraryError ''unused''),
       base64_scan = (\<lambda>rc. ([''||a.com'', ''.sub.a.com'', ''! comment'', ''1.2.3.4'',
                               ''.x.b.org'', ''|http://a.com/x'', ''1.2.3.4''], None)),
       yaml_Marshal = (\<lambda>rs. Inr (concat rs))\<rparr>"
  let ?rc = "\<lparr>content = [], readErr = None\<rparr>"
  have sc: "scan_loop [''||a.com'', ''.sub.a.com'', ''! comment'', ''1.2.3.4'',
                 ''.x.b.org'', ''|http://a.com/x'', ''1.2.3.4''] ([], [], [])
     = Inr ([''a.com'', ''a.com'', ''b.org'', ''a.com''], [''1.2.3.4'', ''1.2.3.4''], [])"
    by code_simp
  then have p: "parseToList ?w ?rc = Inr ([''a.com'', ''b.org''], [''1.2.3.4''], [], None)"
    by (simp add: parseToList_def uniqueList_def)
  from parseToList_dedup [OF p] sc show ?thesis
    using p by auto
qed

section \<open>Properties of the provider\<close>

text \<open>
  C7.  \<^verbatim>\<open>download\<close> succeeds exactly when \<^verbatim>\<open>http.Get\<close> returns a response with status 200,
  and then it returns the body of the response.  On any other status it returns an error
  whose message holds the status code and the bytes read from the body; when \<^verbatim>\<open>http.Get\<close>
  fails it returns that error, wrapped.
\<close>

theorem download_status:
  "((\<exists>rc. download w = Inr rc) \<longleftrightarrow> (\<exists>resp. http_Get w = Inr resp \<and> StatusCode resp = 200))
   \<and> (http_Get w = Inr resp \<and> StatusCode resp = 200 \<longrightarrow> download w = Inr (Body resp))
   \<and> (http_Get w = Inr resp \<and> StatusCode resp \<noteq> 200 \<longrightarrow>
        download w = Inl (Errorf (''download gfwlist failed, code: '' @ fmt_d (StatusCode resp)
                                  @ '', body: '' @ content (Body resp))))
   \<and> (http_Get w = Inl err \<longrightarrow> download w = Inl (Wrapped err))"
  by (cases "http_Get w") (simp_all add: download_def ReadAll_def)

theorem download_status_witness:
  "download \<lparr>http_Get = Inr \<lparr>StatusCode = 200, Body = \<lparr>content = ''fHxhLmNvbQo='', readErr = None\<rparr>\<rparr>,
              base64_scan = (\<lambda>rc. ([''||a.com''], None)),
              yaml_Marshal = (\<lambda>rs. Inr (concat rs))\<rparr>
     = Inr \<lparr>content = ''fHxhLmNvbQo='', readErr = None\<rparr>
   \<and> download \<lparr>http_Get = Inr \<lparr>StatusCode = 404, Body = \<lparr>content = ''not found'', readErr = None\<rparr>\<rparr>,
              base64_scan = (\<lambda>rc. ([], None)),
              yaml_Marshal = (\<lambda>rs. Inr (concat rs))\<rparr>
     = Inl (Errorf ''download gfwlist failed, code: 404, body: not found'')
   \<and> download \<lparr>http_Get = Inl (LibraryError ''dial tcp: i/o timeout''),
              base64_scan = (\<lambda>rc. ([], None)),
              yaml_Marshal = (\<lambda>rs. Inr (concat rs))\<rparr>
     = Inl (Wrapped (LibraryError ''dial tcp: i/o timeout''))"
proof -
  have d: "fmt_d 404 = ''404''"
    by code_simp
  show ?thesis
    using download_status
      [of "\<lparr>http_Get = Inr \<lparr>StatusCode = 200, Body = \<lparr>content = ''fHxhLmNvbQo='', readErr = None\<rparr>\<rparr>,
              base64_scan = (\<lambda>rc. ([''||a.com''], None)),
              yaml_Marshal = (\<lambda>rs. Inr (concat rs))\<rparr>"
          "\<lparr>StatusCode = 200, Body = \<lparr>content = ''fHxhLmNvbQo='', readErr = None\<rparr>\<rparr>"]
      download_status
      [of "\<lparr>http_Get = Inr \<lparr>StatusCode = 404, Body = \<lparr>content = ''not found'', readErr = None\<rparr>\<rparr>,
              base64_scan = (\<lambda>rc. ([], None)),
              yaml_Marshal = (\<lambda>rs. Inr (concat rs))\<rparr>"
          "\<lparr>StatusCode = 404, Body = \<lparr>content = ''not found'', readErr = None\<rparr>\<rparr>"]
      download_status
      [of "\<lparr>http_Get = Inl (LibraryError ''dial tcp: i/o timeout''),
              base64_scan = (\<lambda>rc. ([], None)),
              yaml_Marshal = (\<lambda>rs. Inr (concat rs))\<rparr>" _ "LibraryError ''dial tcp: i/o timeout''"]
    by (simp add: d)
qed

text \<open>When \<^verbatim>\<open>update\<close> returns an error, it has not touched the provider.\<close>

lemma update_error_state:
  assumes "update w s = Inr (Some e, s')"
  shows "s' = s"
  using assms unfolding update_def
  by (simp split: sum.splits prod.splits option.splits)

lemma update_interval:
  assumes "update w s = Inr (err, s')"
  shows "interval s' = interval s"
  using assms unfolding update_def
  by (auto split: sum.splits prod.splits option.splits)

text \<open>
  C2, evaluated.  \<^verbatim>\<open>parseToList\<close> reads \<^verbatim>\<open>scanner.Err()\<close> only after every line the scanner
  delivered has gone through \<^verbatim>\<open>parseLine\<close>, and a stream that fails still delivers the
  lines it read, the last one cut short.  Here the response has status 200 and the base64
  text breaks after the lines \<^verbatim>\<open>.a.b\<close> and \<^verbatim>\<open>.\<close>: \<^verbatim>\<open>parseLine\<close> panics on the second line, so
  \<^verbatim>\<open>update\<close> does not return the scanner's error, or anything else, and the process ends
  instead of serving the document it had.  The missing length check is the one of C5.
\<close>

theorem update_scan_error_panics:
  "http_Get
      \<lparr>http_Get = Inr \<lparr>StatusCode = 200, Body = \<lparr>content = ''LmEuYgou****'', readErr = None\<rparr>\<rparr>,
       base64_scan = (\<lambda>rc. ([''.a.b'', ''.''],
                            Some (LibraryError ''illegal base64 data at input byte 8''))),
       yaml_Marshal = (\<lambda>rs. Inr (concat rs))\<rparr>
     = Inr \<lparr>StatusCode = 200, Body = \<lparr>content = ''LmEuYgou****'', readErr = None\<rparr>\<rparr>
   \<and> snd (base64_scan
      \<lparr>http_Get = Inr \<lparr>StatusCode = 200, Body = \<lparr>content = ''LmEuYgou****'', readErr = None\<rparr>\<rparr>,
       base64_scan = (\<lambda>rc. ([''.a.b'', ''.''],
                            Some (LibraryError ''illegal base64 data at input byte 8''))),
       yaml_Marshal = (\<lambda>rs. Inr (concat rs))\<rparr>
      \<lparr>content = ''LmEuYgou****'', readErr = None\<rparr>)
     = Some (LibraryError ''illegal base64 data at input byte 8'')
   \<and> parseLine ''.a.b'' = Inr (domain, ''a.b'')
   \<and> parseLine ''.'' = Inl SliceBoundsOutOfRange
   \<and> update
      \<lparr>http_Get = Inr \<lparr>StatusCode = 200, Body = \<lparr>content = ''LmEuYgou****'', readErr = None\<rparr>\<rparr>,
       base64_scan = (\<lambda>rc. ([''.a.b'', ''.''],
                            Some (LibraryError ''illegal base64 data at input byte 8''))),
       yaml_Marshal = (\<lambda>rs. Inr (concat rs))\<rparr>
      \<lparr>interval = 0, rules = ''payload: []''\<rparr>
     = Inl SliceBoundsOutOfRange"
proof -
  have a: "parseLine ''.a.b'' = Inr (domain, ''a.b'')"
    by code_simp
  have b: "parseLine ''.'' = Inl SliceBoundsOutOfRange"
    by code_simp
  from a b have "scan_loop [''.a.b'', ''.''] ([], [], []) = Inl SliceBoundsOutOfRange"
    by simp
  then show ?thesis
    using a b by (simp add: update_def download_def parseToList_def)
qed

lemma timer_loop_armed:
  assumes "timer_loop d armed ticks s = Inr (armed', s')"
  shows "length armed' = length armed + length ticks \<and> set armed' \<subseteq> set armed \<union> {d}"
  using assms
proof (induction ticks arbitrary: armed s)
  case Nil
  then show ?case by auto
next
  case (Cons w ticks)
  from Cons.prems obtain err s1 where u: "update w s = Inr (err, s1)"
    by (cases "update w s") auto
  with Cons.prems have "timer_loop d (armed @ [d]) ticks s1 = Inr (armed', s')"
    by simp
  from Cons.IH [OF this] show ?case by auto
qed

text \<open>
  C10.  Every duration that \<^verbatim>\<open>start\<close> arms its timer with is the interval of the provider
  when that is positive, and \<^verbatim>\<open>defaultInterval\<close>, one hour, when it is zero (unset) or
  negative.
\<close>

theorem start_effective_interval:
  assumes "start w ticks s = Inr (armed, s')"
  shows "length armed = Suc (length ticks)
     \<and> (\<forall>d\<in>set armed.
           (0 <s interval s \<longrightarrow> d = interval s)
           \<and> (interval s \<le>s 0 \<longrightarrow> d = defaultInterval))
     \<and> sint defaultInterval = 60 * 60 * 1000 * 1000 * 1000"
proof -
  from assms obtain err s1 where u: "update w s = Inr (err, s1)"
    and t: "timer_loop (start_interval s1) [start_interval s1] ticks s1 = Inr (armed, s')"
    unfolding start_def by (cases "update w s") auto
  from u have i: "interval s1 = interval s" by (rule update_interval)
  from timer_loop_armed [OF t] have l: "length armed = Suc (length ticks)"
    and a: "set armed \<subseteq> {start_interval s1}" by auto
  have e: "(0 <s interval s \<longrightarrow> start_interval s1 = interval s)
           \<and> (interval s \<le>s 0 \<longrightarrow> start_interval s1 = defaultInterval)"
    unfolding start_interval_def i by (auto simp: word_sless_alt word_sle_eq)
  have h: "sint defaultInterval = 60 * 60 * 1000 * 1000 * 1000"
    unfolding defaultInterval_def by simp
  from l a e h show ?thesis by auto
qed

theorem start_effective_interval_witness:
  "start \<lparr>http_Get = Inl (LibraryError ''dial tcp: i/o timeout''),
           base64_scan = (\<lambda>rc. ([], None)), yaml_Marshal = (\<lambda>rs. Inr (concat rs))\<rparr>
         [\<lparr>http_Get = Inl (LibraryError ''dial tcp: i/o timeout''),
           base64_scan = (\<lambda>rc. ([], None)), yaml_Marshal = (\<lambda>rs. Inr (concat rs))\<rparr>]
         \<lparr>interval = 5000000000, rules = []\<rparr>
     = Inr ([5000000000, 5000000000], \<lparr>interval = 5000000000, rules = []\<rparr>)
   \<and> (0 :: 64 word) <s 5000000000
   \<and> list_all (\<lambda>d. d = 5000000000) [5000000000, 5000000000 :: 64 word]
   \<and> start \<lparr>http_Get = Inl (LibraryError ''dial tcp: i/o timeout''),
           base64_scan = (\<lambda>rc. ([], None)), yaml_Marshal = (\<lambda>rs. Inr (concat rs))\<rparr>
         []
         \<lparr>interval = 0, rules = []\<rparr>
     = Inr ([defaultInterval], \<lparr>interval = 0, rules = []\<rparr>)
   \<and> (0 :: 64 word) \<le>s 0
   \<and> list_all (\<lambda>d. d = defaultInterval) [defaultInterval]"
proof -
  let ?w = "\<lparr>http_Get = Inl (LibraryError ''dial tcp: i/o timeout''),
           base64_scan = (\<lambda>rc. ([], None)), yaml_Marshal = (\<lambda>rs. Inr (concat rs))\<rparr>"
  have p: "(0 :: 64 word) <s 5000000000" and n: "(0 :: 64 word) \<le>s 0"
    by (simp_all add: word_sless_alt word_sle_eq)
  have a: "start ?w [?w] \<lparr>interval = 5000000000, rules = []\<rparr>
     = Inr ([5000000000, 5000000000], \<lparr>interval = 5000000000, rules = []\<rparr>)"
    by (simp add: start_def update_def download_def start_interval_def word_sle_eq)
  have b: "start ?w [] \<lparr>interval = 0, rules = []\<rparr>
     = Inr ([defaultInterval], \<lparr>interval = 0, rules = []\<rparr>)"
    by (simp add: start_def update_def download_def start_interval_def word_sle_eq)
  from start_effective_interval [OF a] start_effective_interval [OF b] p n a b
  show ?thesis by (simp add: list_all_iff)
qed

end
